theory Spec2Isabelle
  imports Main
begin

section \<open>Python strings\<close>

text \<open>
  A Python \<open>str\<close> is a sequence of Unicode code points, and \<open>len\<close> counts code points.
  The server's texts contain code points beyond ASCII (its marker glyphs), and its
  validator is applied to arbitrary caller text, so a string is modelled as the list of
  its code points. \<open>ascii\<close> embeds an ASCII literal.
\<close>

type_synonym ustring = "nat list"

definition ascii :: "string \<Rightarrow> ustring" where
  "ascii s = map of_char s"

definition nl :: ustring where
  "nl = [10]"

text \<open>
  \<open>str.isspace\<close> for one code point: the characters that \<open>str.strip()\<close> without
  argument removes (bidirectional class WS, B or S, or category Zs), as inclusive ranges.
\<close>

definition space_ranges :: "(nat \<times> nat) list" where
  "space_ranges =
    [(9, 13), (28, 32), (133, 133), (160, 160), (5760, 5760), (8192, 8202),
     (8232, 8233), (8239, 8239), (8287, 8287), (12288, 12288)]"

text \<open>
  \<open>str.isdigit\<close> for one code point: the characters with Numeric\_Type Decimal or Digit
  (Unicode 14, the table of CPython 3.11), as inclusive ranges. The first range is
  ASCII \<open>0\<close> to \<open>9\<close>; 178, 179 and 185 are the superscripts two, three and one; 1632 to
  1641 are the Arabic-Indic digits.
\<close>

definition digit_ranges :: "(nat \<times> nat) list" where
  "digit_ranges =
    [(48, 57), (178, 179), (185, 185), (1632, 1641), (1776, 1785), (1984, 1993),
     (2406, 2415), (2534, 2543), (2662, 2671), (2790, 2799), (2918, 2927), (3046, 3055),
     (3174, 3183), (3302, 3311), (3430, 3439), (3558, 3567), (3664, 3673), (3792, 3801),
     (3872, 3881), (4160, 4169), (4240, 4249), (4969, 4977), (6112, 6121), (6160, 6169),
     (6470, 6479), (6608, 6618), (6784, 6793), (6800, 6809), (6992, 7001), (7088, 7097),
     (7232, 7241), (7248, 7257), (8304, 8304), (8308, 8313), (8320, 8329), (9312, 9320),
     (9332, 9340), (9352, 9360), (9450, 9450), (9461, 9469), (9471, 9471), (10102, 10110),
     (10112, 10120), (10122, 10130), (42528, 42537), (43216, 43225), (43264, 43273),
     (43472, 43481), (43504, 43513), (43600, 43609), (44016, 44025), (65296, 65305),
     (66720, 66729), (68160, 68163), (68912, 68921), (69216, 69224), (69714, 69722),
     (69734, 69743), (69872, 69881), (69942, 69951), (70096, 70105), (70384, 70393),
     (70736, 70745), (70864, 70873), (71248, 71257), (71360, 71369), (71472, 71481),
     (71904, 71913), (72016, 72025), (72784, 72793), (73040, 73049), (73120, 73129),
     (92768, 92777), (92864, 92873), (93008, 93017), (120782, 120831), (123200, 123209),
     (123632, 123641), (125264, 125273), (127232, 127242), (130032, 130041)]"

definition in_ranges :: "(nat \<times> nat) list \<Rightarrow> nat \<Rightarrow> bool" where
  "in_ranges rs c = list_ex (\<lambda>(lo, hi). lo \<le> c \<and> c \<le> hi) rs"

definition isspace_char :: "nat \<Rightarrow> bool" where
  "isspace_char c = in_ranges space_ranges c"

definition isdigit_char :: "nat \<Rightarrow> bool" where
  "isdigit_char c = in_ranges digit_ranges c"

definition ascii_digit :: "nat \<Rightarrow> bool" where
  "ascii_digit c = (48 \<le> c \<and> c \<le> 57)"

text \<open>\<open>s.isdigit()\<close>: every character is a digit and there is at least one.\<close>

definition isdigit :: "ustring \<Rightarrow> bool" where
  "isdigit s = (s \<noteq> [] \<and> list_all isdigit_char s)"

text \<open>\<open>s.strip()\<close>: leading and trailing whitespace removed.\<close>

definition lstrip :: "ustring \<Rightarrow> ustring" where
  "lstrip s = dropWhile isspace_char s"

definition rstrip :: "ustring \<Rightarrow> ustring" where
  "rstrip s = rev (dropWhile isspace_char (rev s))"

definition strip :: "ustring \<Rightarrow> ustring" where
  "strip s = rstrip (lstrip s)"

text \<open>\<open>str(n)\<close> for an integer: decimal digits, with a minus sign below zero.\<close>

fun dec_nat :: "nat \<Rightarrow> ustring" where
  "dec_nat n = (if n < 10 then [48 + n] else dec_nat (n div 10) @ [48 + n mod 10])"

declare dec_nat.simps [simp del]

definition dec_int :: "int \<Rightarrow> ustring" where
  "dec_int i = (if i < 0 then ascii ''-'' @ dec_nat (nat (- i)) else dec_nat (nat i))"

section \<open>Exceptions\<close>

text \<open>
  A raised exception is a value: its class and its message, which is what \<open>str(e)\<close>
  gives. A computation that may raise returns \<open>py_exception + 'a\<close>.
\<close>

datatype py_exception =
    ValueError ustring
  | AttributeError ustring
  | TypeError ustring

fun exc_str :: "py_exception \<Rightarrow> ustring" where
  "exc_str (ValueError m) = m"
| "exc_str (AttributeError m) = m"
| "exc_str (TypeError m) = m"

definition bindE :: "py_exception + 'a \<Rightarrow> ('a \<Rightarrow> py_exception + 'b) \<Rightarrow> py_exception + 'b" where
  "bindE m f = (case m of Inl e \<Rightarrow> Inl e | Inr x \<Rightarrow> f x)"

section \<open>The identifier validator\<close>

definition sanitize_user_id :: "ustring \<Rightarrow> py_exception + ustring" where
  "sanitize_user_id user_id =
    (let clean_id = strip user_id in
     if clean_id = [] then Inl (ValueError (ascii ''User ID cannot be empty''))
     else if \<not> isdigit clean_id then
       Inl (ValueError (ascii ''User ID must contain only digits''))
     else if length clean_id < 17 \<or> length clean_id > 20 then
       Inl (ValueError (ascii ''User ID must be between 17-20 digits''))
     else Inr clean_id)"

section \<open>Decoded JSON values\<close>

text \<open>
  \<open>response.json()\<close> gives Python values built from \<open>None\<close>, \<open>bool\<close>, \<open>int\<close>,
  \<open>str\<close>, \<open>list\<close> and \<open>dict\<close> with \<open>str\<close> keys. A \<open>dict\<close> keeps its entries in
  insertion order, so it is an association list; a decoded \<open>dict\<close> has distinct keys.
  Numbers with a fraction or an exponent decode to \<open>float\<close> and are outside the model.
\<close>

datatype json =
    JNull
  | JBool bool
  | JInt int
  | JStr ustring
  | JArr "json list"
  | JObj "(ustring \<times> json) list"

text \<open>Truth value testing (\<open>if x\<close>, \<open>not x\<close>, \<open>x and y\<close>).\<close>

fun truthy :: "json \<Rightarrow> bool" where
  "truthy JNull = False"
| "truthy (JBool b) = b"
| "truthy (JInt n) = (n \<noteq> 0)"
| "truthy (JStr s) = (s \<noteq> [])"
| "truthy (JArr xs) = (xs \<noteq> [])"
| "truthy (JObj kvs) = (kvs \<noteq> [])"

fun type_name :: "json \<Rightarrow> ustring" where
  "type_name JNull = ascii ''NoneType''"
| "type_name (JBool b) = ascii ''bool''"
| "type_name (JInt n) = ascii ''int''"
| "type_name (JStr s) = ascii ''str''"
| "type_name (JArr xs) = ascii ''list''"
| "type_name (JObj kvs) = ascii ''dict''"

text \<open>The messages of the exceptions the interpreter raises; 39 is the apostrophe.\<close>

definition no_attribute :: "json \<Rightarrow> string \<Rightarrow> py_exception" where
  "no_attribute x a =
    AttributeError ([39] @ type_name x @ [39] @ ascii '' object has no attribute '' @ [39]
                    @ ascii a @ [39])"

definition unhashable :: "json \<Rightarrow> py_exception" where
  "unhashable x = TypeError (ascii ''unhashable type: '' @ [39] @ type_name x @ [39])"

definition not_iterable :: "json \<Rightarrow> py_exception" where
  "not_iterable x = TypeError ([39] @ type_name x @ [39] @ ascii '' object is not iterable'')"

text \<open>
  \<open>x.get(k, d)\<close>: only a \<open>dict\<close> has the method; on any other value the attribute
  lookup raises.
\<close>

definition lookup_or :: "(ustring \<times> json) list \<Rightarrow> string \<Rightarrow> json \<Rightarrow> json" where
  "lookup_or kvs k d = (case map_of kvs (ascii k) of Some v \<Rightarrow> v | None \<Rightarrow> d)"

definition dict_get :: "json \<Rightarrow> string \<Rightarrow> json \<Rightarrow> py_exception + json" where
  "dict_get x k d =
    (case x of JObj kvs \<Rightarrow> Inr (lookup_or kvs k d) | _ \<Rightarrow> Inl (no_attribute x ''get''))"

text \<open>\<open>kv.items()\<close>.\<close>

definition dict_items :: "json \<Rightarrow> py_exception + (ustring \<times> json) list" where
  "dict_items x = (case x of JObj kvs \<Rightarrow> Inr kvs | _ \<Rightarrow> Inl (no_attribute x ''items''))"

text \<open>
  Iteration, as \<open>enumerate\<close> performs it: a list gives its elements, a string its
  characters, a dict its keys; the other values are not iterable.
\<close>

definition py_iter :: "json \<Rightarrow> py_exception + json list" where
  "py_iter x =
    (case x of
       JArr xs \<Rightarrow> Inr xs
     | JStr s \<Rightarrow> Inr (map (\<lambda>c. JStr [c]) s)
     | JObj kvs \<Rightarrow> Inr (map (\<lambda>kv. JStr (fst kv)) kvs)
     | _ \<Rightarrow> Inl (not_iterable x))"

text \<open>
  The Unicode tables behind \<open>str.upper\<close> and behind the escaping in the \<open>repr\<close> of a
  string are not part of the program; both operations are parameters of the model, and
  nothing proved below depends on what they return.
\<close>

record pylib =
  str_upper :: "ustring \<Rightarrow> ustring"
  str_repr :: "ustring \<Rightarrow> ustring"

fun join :: "ustring \<Rightarrow> ustring list \<Rightarrow> ustring" where
  "join sep [] = []"
| "join sep [x] = x"
| "join sep (x # y # ys) = x @ sep @ join sep (y # ys)"

fun py_repr :: "(ustring \<Rightarrow> ustring) \<Rightarrow> json \<Rightarrow> ustring" where
  "py_repr q JNull = ascii ''None''"
| "py_repr q (JBool b) = (if b then ascii ''True'' else ascii ''False'')"
| "py_repr q (JInt n) = dec_int n"
| "py_repr q (JStr s) = q s"
| "py_repr q (JArr xs) = ascii ''['' @ join (ascii '', '') (map (py_repr q) xs) @ ascii '']''"
| "py_repr q (JObj kvs) =
     ascii ''{''
     @ join (ascii '', '') (map (\<lambda>kv. q (fst kv) @ ascii '': '' @ py_repr q (snd kv)) kvs)
     @ ascii ''}''"

text \<open>A value inside an f-string, \<open>f"{x}"\<close>: \<open>str(x)\<close>, which for a string is the string.\<close>

definition py_str :: "pylib \<Rightarrow> json \<Rightarrow> ustring" where
  "py_str L x = (case x of JStr s \<Rightarrow> s | _ \<Rightarrow> py_repr (str_repr L) x)"

text \<open>\<open>status.upper()\<close>: only a string has the method.\<close>

definition upper :: "pylib \<Rightarrow> json \<Rightarrow> py_exception + ustring" where
  "upper L x = (case x of JStr s \<Rightarrow> Inr (str_upper L s) | _ \<Rightarrow> Inl (no_attribute x ''upper''))"

section \<open>Timestamps\<close>

text \<open>
  \<open>datetime.fromtimestamp(timestamp_ms / 1000, tz=timezone.utc)\<close> on an integer number of
  milliseconds. The proleptic Gregorian date of a day number is computed as the standard
  library's \<open>_ord2ymd\<close> does (\<open>month_day\<close> is its second half, from the day of the
  year to month and day); day 1 is 0001-01-01, day 719163 is 1970-01-01 and day 3652059
  is 9999-12-31.
\<close>

record datetime =
  year :: int
  month :: int
  day :: int
  hour :: int
  minute :: int
  second :: int

definition days_before_month :: "int \<Rightarrow> int" where
  "days_before_month m =
    (if m = 1 then 0 else if m = 2 then 31 else if m = 3 then 59 else if m = 4 then 90
     else if m = 5 then 120 else if m = 6 then 151 else if m = 7 then 181
     else if m = 8 then 212 else if m = 9 then 243 else if m = 10 then 273
     else if m = 11 then 304 else 334)"

definition days_in_month_common :: "int \<Rightarrow> int" where
  "days_in_month_common m =
    (if m = 2 then 28 else if m = 4 \<or> m = 6 \<or> m = 9 \<or> m = 11 then 30 else 31)"

definition month_day :: "int \<Rightarrow> bool \<Rightarrow> int \<times> int" where
  "month_day n leapyear =
    (let m = (n + 50) div 32;
         preceding = days_before_month m + (if m > 2 \<and> leapyear then 1 else 0)
     in if preceding > n
        then (m - 1,
              n - (preceding - (days_in_month_common (m - 1)
                                + (if m - 1 = 2 \<and> leapyear then 1 else 0))) + 1)
        else (m, n - preceding + 1))"

definition ord2ymd :: "int \<Rightarrow> int \<times> int \<times> int" where
  "ord2ymd ordinal =
    (let n = ordinal - 1;
         n400 = n div 146097; r400 = n mod 146097;
         n100 = r400 div 36524; r100 = r400 mod 36524;
         n4 = r100 div 1461; r4 = r100 mod 1461;
         n1 = r4 div 365; r1 = r4 mod 365;
         y = n400 * 400 + 1 + n100 * 100 + n4 * 4 + n1
     in if n1 = 4 \<or> n100 = 4 then (y - 1, 12, 31)
        else case month_day r1 (n1 = 3 \<and> (n4 \<noteq> 24 \<or> n100 = 3)) of (m, d) \<Rightarrow> (y, m, d))"





text \<open>
  The quotient \<open>timestamp_ms / 1000\<close> is a float. For every integer whose date lies in
  the years 1 to 9999 the float is exact enough that the whole seconds are
  \<open>timestamp_ms div 1000\<close> (rounded down); every other integer raises (\<open>ValueError\<close>,
  \<open>OverflowError\<close> or \<open>OSError\<close>). The caller's bare \<open>except\<close> discards the
  exception, so \<open>None\<close> stands for any of them. Dates before 1970 are converted as the
  POSIX \<open>gmtime\<close> does.
\<close>

definition utc_fromtimestamp_ms :: "int \<Rightarrow> datetime option" where
  "utc_fromtimestamp_ms ms =
    (let secs = ms div 1000;
         ordinal = secs div 86400 + 719163;
         sod = secs mod 86400
     in if ordinal < 1 \<or> ordinal > 3652059 then None
        else case ord2ymd ordinal of (y, m, d) \<Rightarrow>
          Some \<lparr>year = y, month = m, day = d,
                hour = sod div 3600, minute = sod mod 3600 div 60, second = sod mod 60\<rparr>)"

text \<open>
  The division accepts \<open>int\<close> and \<open>bool\<close> (\<open>True\<close> is 1); on any other decoded value it
  raises \<open>TypeError\<close>.
\<close>

definition fromtimestamp :: "json \<Rightarrow> datetime option" where
  "fromtimestamp timestamp_ms =
    (case timestamp_ms of
       JInt n \<Rightarrow> utc_fromtimestamp_ms n
     | JBool b \<Rightarrow> utc_fromtimestamp_ms (if b then 1 else 0)
     | _ \<Rightarrow> None)"

text \<open>
  \<open>dt.strftime("%Y-%m-%d %H:%M:%S UTC")\<close>. The two-digit fields are zero-padded. \<open>%Y\<close> is
  the year as the C library prints it: glibc does not pad it, so a year below 1000 has
  fewer than four digits there (other C libraries pad to four).
\<close>

definition pad2 :: "int \<Rightarrow> ustring" where
  "pad2 n = (if n < 10 then ascii ''0'' @ dec_int n else dec_int n)"

definition strftime :: "datetime \<Rightarrow> ustring" where
  "strftime dt =
    dec_int (year dt) @ ascii ''-'' @ pad2 (month dt) @ ascii ''-'' @ pad2 (day dt)
    @ ascii '' '' @ pad2 (hour dt) @ ascii '':'' @ pad2 (minute dt) @ ascii '':''
    @ pad2 (second dt) @ ascii '' UTC''"

definition format_timestamp :: "json \<Rightarrow> ustring" where
  "format_timestamp timestamp_ms =
    (case fromtimestamp timestamp_ms of
       Some dt \<Rightarrow> strftime dt
     | None \<Rightarrow> ascii ''Unknown'')"

section \<open>The shared formatters\<close>

text \<open>
  \<open>timestamps['start']\<close> is read only after \<open>timestamps.get("start")\<close> was truthy, so the
  key is present and the subscript gives the value \<open>get\<close> gave. 127925 is the
  musical-note glyph.
\<close>

definition format_spotify_data :: "pylib \<Rightarrow> json \<Rightarrow> py_exception + ustring" where
  "format_spotify_data L spotify =
    (if \<not> truthy spotify then Inr (ascii ''Not listening to Spotify'')
     else
       bindE (dict_get spotify ''song'' (JStr (ascii ''Unknown''))) (\<lambda>song.
       bindE (dict_get spotify ''artist'' (JStr (ascii ''Unknown''))) (\<lambda>artist.
       bindE (dict_get spotify ''album'' (JStr (ascii ''Unknown''))) (\<lambda>album.
       let output = [127925] @ ascii '' Spotify Activity:'' @ nl
             @ ascii ''  Song: '' @ py_str L song @ nl
             @ ascii ''  Artist: '' @ py_str L artist @ nl
             @ ascii ''  Album: '' @ py_str L album @ nl
       in
       bindE (dict_get spotify ''timestamps'' (JObj [])) (\<lambda>timestamps.
       bindE (dict_get timestamps ''start'' JNull) (\<lambda>start_ms.
       let output = (if truthy start_ms
                     then output @ ascii ''  Started: '' @ format_timestamp start_ms @ nl
                     else output)
       in
       bindE (dict_get timestamps ''end'' JNull) (\<lambda>end_ms.
       let output = (if truthy end_ms
                     then output @ ascii ''  Ends: '' @ format_timestamp end_ms @ nl
                     else output)
       in Inr output)))))))"

text \<open>
  \<open>type_names.get(activity_type, "Activity")\<close>: the key must be hashable, and \<open>True\<close>
  and \<open>False\<close> are the keys 1 and 0.
\<close>

definition type_names :: "(int \<times> ustring) list" where
  "type_names =
    [(0, ascii ''Playing''), (1, ascii ''Streaming''), (2, ascii ''Listening to''),
     (3, ascii ''Watching''), (4, ascii ''Custom Status''), (5, ascii ''Competing in'')]"

definition type_names_get :: "json \<Rightarrow> py_exception + ustring" where
  "type_names_get activity_type =
    (case activity_type of
       JInt n \<Rightarrow> Inr (case map_of type_names n of Some s \<Rightarrow> s | None \<Rightarrow> ascii ''Activity'')
     | JBool b \<Rightarrow>
         Inr (case map_of type_names (if b then 1 else 0) of
                Some s \<Rightarrow> s | None \<Rightarrow> ascii ''Activity'')
     | JArr xs \<Rightarrow> Inl (unhashable activity_type)
     | JObj kvs \<Rightarrow> Inl (unhashable activity_type)
     | _ \<Rightarrow> Inr (ascii ''Activity''))"

text \<open>The loop of \<open>format_activities\<close>: \<open>i\<close> is the ordinal of the first remaining activity.\<close>

fun activities_loop :: "pylib \<Rightarrow> nat \<Rightarrow> json list \<Rightarrow> ustring \<Rightarrow> py_exception + ustring" where
  "activities_loop L i [] output = Inr output"
| "activities_loop L i (activity # rest) output =
     bindE (dict_get activity ''name'' (JStr (ascii ''Unknown''))) (\<lambda>name.
     bindE (dict_get activity ''type'' (JInt 0)) (\<lambda>activity_type.
     bindE (type_names_get activity_type) (\<lambda>type_str.
     let output = output @ nl @ dec_nat i @ ascii ''. '' @ type_str @ ascii '' ''
                  @ py_str L name @ nl
     in
     bindE (dict_get activity ''details'' JNull) (\<lambda>details.
     let output = (if truthy details
                   then output @ ascii ''   Details: '' @ py_str L details @ nl
                   else output)
     in
     bindE (dict_get activity ''state'' JNull) (\<lambda>state.
     let output = (if truthy state
                   then output @ ascii ''   State: '' @ py_str L state @ nl
                   else output)
     in activities_loop L (i + 1) rest output)))))"

definition format_activities :: "pylib \<Rightarrow> json \<Rightarrow> py_exception + ustring" where
  "format_activities L activities =
    (if \<not> truthy activities then Inr (ascii ''No activities'')
     else bindE (py_iter activities) (\<lambda>items. activities_loop L 1 items []))"

text \<open>The loop of \<open>format_kv_data\<close>; 128221 is the memo glyph.\<close>

fun kv_loop :: "pylib \<Rightarrow> (ustring \<times> json) list \<Rightarrow> ustring \<Rightarrow> ustring" where
  "kv_loop L [] output = output"
| "kv_loop L ((key, val) # rest) output =
     kv_loop L rest (output @ ascii ''  '' @ key @ ascii '': '' @ py_str L val @ nl)"

definition format_kv_data :: "pylib \<Rightarrow> json \<Rightarrow> py_exception + ustring" where
  "format_kv_data L kv =
    (if \<not> truthy kv then Inr (ascii ''No KV data'')
     else
       let output = [128221] @ ascii '' Custom KV Data:'' @ nl
       in bindE (dict_items kv) (\<lambda>items. Inr (kv_loop L items output)))"

section \<open>The three tools\<close>

text \<open>
  The glyphs of the result texts, by code point: cross mark, check mark, the four status
  circles and the white fallback circle, laptop, mobile phone, game controller, and the
  stopwatch with its variation selector.
\<close>

definition cross_mark :: ustring where "cross_mark = [10060]"
definition check_mark :: ustring where "check_mark = [9989]"
definition green_circle :: ustring where "green_circle = [128994]"
definition yellow_circle :: ustring where "yellow_circle = [128993]"
definition red_circle :: ustring where "red_circle = [128308]"
definition black_circle :: ustring where "black_circle = [9899]"
definition white_circle :: ustring where "white_circle = [9898]"
definition laptop :: ustring where "laptop = [128187]"
definition mobile_phone :: ustring where "mobile_phone = [128241]"
definition game_controller :: ustring where "game_controller = [127918]"
definition stopwatch :: ustring where "stopwatch = [9201, 65039]"

definition LANYARD_API_BASE :: ustring where
  "LANYARD_API_BASE = ascii ''https://api.lanyard.rest/v1''"

text \<open>\<open>status_emoji.get(status, ...)\<close>: the key must be hashable.\<close>

definition status_emoji :: "(ustring \<times> ustring) list" where
  "status_emoji =
    [(ascii ''online'', green_circle), (ascii ''idle'', yellow_circle),
     (ascii ''dnd'', red_circle), (ascii ''offline'', black_circle)]"

definition status_emoji_get :: "json \<Rightarrow> py_exception + ustring" where
  "status_emoji_get status =
    (case status of
       JStr s \<Rightarrow> Inr (case map_of status_emoji s of Some e \<Rightarrow> e | None \<Rightarrow> white_circle)
     | JArr xs \<Rightarrow> Inl (unhashable status)
     | JObj kvs \<Rightarrow> Inl (unhashable status)
     | _ \<Rightarrow> Inr white_circle)"

text \<open>
  The full presence renderer: \<open>get_user_presence\<close> from the extraction of
  \<open>discord_user\<close> to \<open>return output.strip()\<close>, as a function of the validated
  identifier and of \<open>data\<close>.
\<close>

definition render_presence :: "pylib \<Rightarrow> ustring \<Rightarrow> json \<Rightarrow> py_exception + ustring" where
  "render_presence L clean_id data =
    bindE (dict_get data ''discord_user'' (JObj [])) (\<lambda>discord_user.
    bindE (dict_get discord_user ''username'' (JStr (ascii ''Unknown''))) (\<lambda>username.
    bindE (dict_get discord_user ''id'' (JStr clean_id)) (\<lambda>user_id_str.
    bindE (dict_get discord_user ''discriminator'' (JStr (ascii ''0''))) (\<lambda>discriminator.
    let user_display =
          (if discriminator = JStr (ascii ''0'') then ascii ''@'' @ py_str L username
           else py_str L username @ ascii ''#'' @ py_str L discriminator);
        output = check_mark @ ascii '' Discord Presence for '' @ user_display @ ascii '' (''
                 @ py_str L user_id_str @ ascii '')'' @ nl @ nl
    in
    bindE (dict_get data ''discord_status'' (JStr (ascii ''unknown''))) (\<lambda>status.
    bindE (status_emoji_get status) (\<lambda>emoji.
    bindE (upper L status) (\<lambda>status_upper.
    let output = output @ ascii ''Status: '' @ emoji @ ascii '' '' @ status_upper @ nl @ nl
    in
    bindE (dict_get data ''active_on_discord_desktop'' JNull) (\<lambda>desktop.
    let output = (if truthy desktop then output @ laptop @ ascii '' Active on Desktop'' @ nl
                  else output)
    in
    bindE (dict_get data ''active_on_discord_mobile'' JNull) (\<lambda>mobile.
    let output = (if truthy mobile then output @ mobile_phone @ ascii '' Active on Mobile'' @ nl
                  else output);
        output = output @ nl
    in
    bindE (dict_get data ''spotify'' JNull) (\<lambda>spotify.
    bindE (dict_get data ''listening_to_spotify'' JNull) (\<lambda>listening.
    bindE (if truthy listening \<and> truthy spotify
           then bindE (format_spotify_data L spotify) (\<lambda>block. Inr (output @ block @ nl))
           else Inr output) (\<lambda>output.
    bindE (dict_get data ''activities'' (JArr [])) (\<lambda>activities.
    bindE (if truthy activities
           then bindE (format_activities L activities) (\<lambda>block.
                  Inr (output @ game_controller @ ascii '' Activities:'' @ block @ nl))
           else Inr output) (\<lambda>output.
    bindE (dict_get data ''kv'' (JObj [])) (\<lambda>kv.
    bindE (if truthy kv
           then bindE (format_kv_data L kv) (\<lambda>block. Inr (output @ block))
           else Inr output) (\<lambda>output.
    Inr (strip output)))))))))))))))))"

text \<open>
  The Spotify-only renderer: \<open>get_user_spotify\<close> from the extraction of
  \<open>discord_user\<close> to \<open>return output.strip()\<close>.
\<close>

definition render_spotify :: "pylib \<Rightarrow> json \<Rightarrow> py_exception + ustring" where
  "render_spotify L data =
    bindE (dict_get data ''discord_user'' (JObj [])) (\<lambda>discord_user.
    bindE (dict_get discord_user ''username'' (JStr (ascii ''Unknown''))) (\<lambda>username.
    bindE (dict_get data ''listening_to_spotify'' (JBool False)) (\<lambda>listening.
    bindE (dict_get data ''spotify'' JNull) (\<lambda>spotify.
    if \<not> truthy listening \<or> \<not> truthy spotify
    then Inr ([127925] @ ascii '' '' @ py_str L username
              @ ascii '' is not currently listening to Spotify'')
    else
      let output = check_mark @ ascii '' Spotify Status for '' @ py_str L username @ nl @ nl
      in
      bindE (format_spotify_data L spotify) (\<lambda>block.
      let output = output @ block
      in
      bindE (dict_get spotify ''album_art_url'' (JStr [])) (\<lambda>album_art.
      let output = (if truthy album_art
                    then output @ ascii ''  Album Art: '' @ py_str L album_art @ nl
                    else output)
      in
      bindE (dict_get spotify ''track_id'' (JStr [])) (\<lambda>track_id.
      let output = (if truthy track_id
                    then output @ ascii ''  Track URL: https://open.spotify.com/track/''
                         @ py_str L track_id @ nl
                    else output)
      in Inr (strip output))))))))"

text \<open>
  The KV-only renderer: \<open>get_user_kv\<close> from the extraction of \<open>discord_user\<close> to
  \<open>return output.strip()\<close>.
\<close>

definition render_kv :: "pylib \<Rightarrow> json \<Rightarrow> py_exception + ustring" where
  "render_kv L data =
    bindE (dict_get data ''discord_user'' (JObj [])) (\<lambda>discord_user.
    bindE (dict_get discord_user ''username'' (JStr (ascii ''Unknown''))) (\<lambda>username.
    bindE (dict_get data ''kv'' (JObj [])) (\<lambda>kv.
    if \<not> truthy kv
    then Inr ([128221] @ ascii '' '' @ py_str L username @ ascii '' has no custom KV data set'')
    else
      let output = check_mark @ ascii '' KV Data for '' @ py_str L username @ nl @ nl
      in bindE (format_kv_data L kv) (\<lambda>block. Inr (strip (output @ block))))))"

text \<open>
  What the tools do with the decoded body: the \<open>success\<close> check, the extraction of
  \<open>data\<close> and the renderer.
\<close>

definition on_result ::
  "ustring \<Rightarrow> (json \<Rightarrow> py_exception + ustring) \<Rightarrow> json \<Rightarrow> py_exception + ustring" where
  "on_result clean_id render result =
    bindE (dict_get result ''success'' JNull) (\<lambda>success.
    if \<not> truthy success
    then Inr (cross_mark @ ascii '' API returned unsuccessful response for user '' @ clean_id)
    else bindE (dict_get result ''data'' (JObj [])) render)"

text \<open>
  The outcome of \<open>await client.get(url, timeout=REQUEST_TIMEOUT)\<close>, supplied by the
  environment: a response with its status code and what \<open>response.json()\<close> gives (the
  decoded body, or the message of the exception it raises), a timeout, or any other
  exception with its message. \<open>raise_for_status()\<close> raises \<open>HTTPStatusError\<close> unless the
  status code is from 200 to 299.
\<close>

datatype http_outcome =
    Response int "ustring + json"
  | TimeoutException
  | OtherException ustring

text \<open>
  The \<open>try\<close> block of a tool and its three handlers; \<open>not_found\<close> is the text for status
  404, the only handler text in which the tools differ.
\<close>

definition handle_outcome ::
  "ustring \<Rightarrow> ustring \<Rightarrow> (json \<Rightarrow> py_exception + ustring) \<Rightarrow> http_outcome \<Rightarrow> ustring" where
  "handle_outcome clean_id not_found render outcome =
    (case outcome of
       Response status body \<Rightarrow>
         if 200 \<le> status \<and> status \<le> 299 then
           (case body of
              Inl message \<Rightarrow> cross_mark @ ascii '' Error: '' @ message
            | Inr result \<Rightarrow>
                (case on_result clean_id render result of
                   Inr text \<Rightarrow> text
                 | Inl e \<Rightarrow> cross_mark @ ascii '' Error: '' @ exc_str e))
         else if status = 404 then not_found
         else if status = 429 then cross_mark @ ascii '' Rate limit exceeded. Please try again later.''
         else cross_mark @ ascii '' API Error: HTTP '' @ dec_int status
     | TimeoutException \<Rightarrow>
         stopwatch @ ascii '' Request timed out while fetching user '' @ clean_id
     | OtherException message \<Rightarrow> cross_mark @ ascii '' Error: '' @ message)"

text \<open>
  A tool call: the HTTP client is a function from the URL to the outcome, and the call
  returns its result (\<open>Inl\<close> if an exception leaves the tool) together with the URLs it
  requested, in order. Only \<open>ValueError\<close> is caught around the validator. The log
  records go to the standard error stream and are not part of the result; they are left
  out.
\<close>

type_synonym tool_result = "(py_exception + ustring) \<times> ustring list"

definition run_tool ::
  "(ustring \<Rightarrow> http_outcome) \<Rightarrow> ustring \<Rightarrow> (ustring \<Rightarrow> ustring)
   \<Rightarrow> (ustring \<Rightarrow> json \<Rightarrow> py_exception + ustring) \<Rightarrow> tool_result" where
  "run_tool client user_id not_found render =
    (case sanitize_user_id user_id of
       Inl (ValueError message) \<Rightarrow> (Inr (cross_mark @ ascii '' Invalid user ID: '' @ message), [])
     | Inl e \<Rightarrow> (Inl e, [])
     | Inr clean_id \<Rightarrow>
         let url = LANYARD_API_BASE @ ascii ''/users/'' @ clean_id
         in (Inr (handle_outcome clean_id (not_found clean_id) (render clean_id) (client url)),
             [url]))"

definition get_user_presence :: "pylib \<Rightarrow> (ustring \<Rightarrow> http_outcome) \<Rightarrow> ustring \<Rightarrow> tool_result" where
  "get_user_presence L client user_id =
    run_tool client user_id
      (\<lambda>clean_id. cross_mark @ ascii '' User not found: '' @ clean_id
                   @ ascii '' (Discord user may not be using Lanyard)'')
      (render_presence L)"

definition get_user_spotify :: "pylib \<Rightarrow> (ustring \<Rightarrow> http_outcome) \<Rightarrow> ustring \<Rightarrow> tool_result" where
  "get_user_spotify L client user_id =
    run_tool client user_id
      (\<lambda>clean_id. cross_mark @ ascii '' User not found: '' @ clean_id)
      (\<lambda>clean_id. render_spotify L)"

definition get_user_kv :: "pylib \<Rightarrow> (ustring \<Rightarrow> http_outcome) \<Rightarrow> ustring \<Rightarrow> tool_result" where
  "get_user_kv L client user_id =
    run_tool client user_id
      (\<lambda>clean_id. cross_mark @ ascii '' User not found: '' @ clean_id)
      (\<lambda>clean_id. render_kv L)"

section \<open>Well-shaped payloads\<close>

text \<open>
  The payloads of the data model: \<open>data\<close> is an object, and each optional field is
  either absent or has the kind of value the data model gives it. Only the kinds that the
  code depends on are constrained: \<open>discord_user\<close>, \<open>kv\<close> and \<open>timestamps\<close> are objects,
  \<open>discord_status\<close> is a string, \<open>spotify\<close> is \<open>null\<close> or an object, \<open>activities\<close> is
  a list of objects whose \<open>type\<close> is an integer. All other fields may hold any value.
\<close>

definition absent_or :: "(json \<Rightarrow> bool) \<Rightarrow> (ustring \<times> json) list \<Rightarrow> string \<Rightarrow> bool" where
  "absent_or P kvs k = (case map_of kvs (ascii k) of None \<Rightarrow> True | Some v \<Rightarrow> P v)"

fun is_obj :: "json \<Rightarrow> bool" where
  "is_obj (JObj kvs) = True"
| "is_obj x = False"

fun is_str :: "json \<Rightarrow> bool" where
  "is_str (JStr s) = True"
| "is_str x = False"

fun is_int :: "json \<Rightarrow> bool" where
  "is_int (JInt n) = True"
| "is_int x = False"


fun spotify_ok :: "json \<Rightarrow> bool" where
  "spotify_ok JNull = True"
| "spotify_ok (JObj kvs) = absent_or is_obj kvs ''timestamps''"
| "spotify_ok x = False"

fun activity_ok :: "json \<Rightarrow> bool" where
  "activity_ok (JObj kvs) = absent_or is_int kvs ''type''"
| "activity_ok x = False"

fun activities_ok :: "json \<Rightarrow> bool" where
  "activities_ok (JArr xs) = list_all activity_ok xs"
| "activities_ok x = False"

fun payload_ok :: "json \<Rightarrow> bool" where
  "payload_ok (JObj kvs) =
     (absent_or is_obj kvs ''discord_user'' \<and> absent_or is_str kvs ''discord_status''
      \<and> absent_or spotify_ok kvs ''spotify'' \<and> absent_or activities_ok kvs ''activities''
      \<and> absent_or is_obj kvs ''kv'')"
| "payload_ok x = False"

section \<open>The renderings as the specification words them\<close>

text \<open>
  The definitions of this section are not taken from the code: they write down the
  blocks as the specification describes them, and the theorems below compare them with
  the formatters. Where the specification says that a line is emitted if a field is
  present, the test is a parameter \<open>shown\<close>: \<open>present\<close> is the specification's reading,
  \<open>truthy\<close> is the test the code applies.
\<close>

text \<open>The lines of a text: the pieces between newlines, a final newline ending the last.\<close>

fun lines_of :: "ustring \<Rightarrow> ustring list" where
  "lines_of [] = []"
| "lines_of (c # cs) =
     (if c = 10 then [] # lines_of cs
      else case lines_of cs of [] \<Rightarrow> [[c]] | l # ls \<Rightarrow> (c # l) # ls)"

definition kv_line :: "pylib \<Rightarrow> ustring \<times> json \<Rightarrow> ustring" where
  "kv_line L kv = ascii ''  '' @ fst kv @ ascii '': '' @ py_str L (snd kv)"

definition type_label :: "int \<Rightarrow> ustring" where
  "type_label n =
    (if n = 0 then ascii ''Playing'' else if n = 1 then ascii ''Streaming''
     else if n = 2 then ascii ''Listening to'' else if n = 3 then ascii ''Watching''
     else if n = 4 then ascii ''Custom Status'' else if n = 5 then ascii ''Competing in''
     else ascii ''Activity'')"

definition present :: "json \<Rightarrow> bool" where
  "present v = True"

definition optional_line ::
  "(json \<Rightarrow> bool) \<Rightarrow> (json \<Rightarrow> ustring) \<Rightarrow> string \<Rightarrow> (ustring \<times> json) list \<Rightarrow> string
   \<Rightarrow> ustring" where
  "optional_line shown fmt label kvs k =
    (case map_of kvs (ascii k) of
       None \<Rightarrow> []
     | Some v \<Rightarrow> if shown v then ascii label @ fmt v @ nl else [])"

definition activity_entry :: "(json \<Rightarrow> bool) \<Rightarrow> pylib \<Rightarrow> nat \<times> json \<Rightarrow> ustring" where
  "activity_entry shown L ia =
    (case snd ia of
       JObj kvs \<Rightarrow>
         nl @ dec_nat (fst ia) @ ascii ''. ''
         @ (case map_of kvs (ascii ''type'') of Some (JInt n) \<Rightarrow> type_label n | _ \<Rightarrow> type_label 0)
         @ ascii '' '' @ py_str L (lookup_or kvs ''name'' (JStr (ascii ''Unknown''))) @ nl
         @ optional_line shown (py_str L) ''   Details: '' kvs ''details''
         @ optional_line shown (py_str L) ''   State: '' kvs ''state''
     | _ \<Rightarrow> [])"

definition activities_block :: "(json \<Rightarrow> bool) \<Rightarrow> pylib \<Rightarrow> json list \<Rightarrow> ustring" where
  "activities_block shown L acts =
    (if acts = [] then ascii ''No activities''
     else concat (map (activity_entry shown L) (enumerate 1 acts)))"

definition obj_fields :: "json \<Rightarrow> (ustring \<times> json) list" where
  "obj_fields x = (case x of JObj kvs \<Rightarrow> kvs | _ \<Rightarrow> [])"



definition username_text :: "pylib \<Rightarrow> (ustring \<times> json) list \<Rightarrow> ustring" where
  "username_text L kvs =
    py_str L (lookup_or (obj_fields (lookup_or kvs ''discord_user'' (JObj []))) ''username''
                (JStr (ascii ''Unknown'')))"

definition presence_header :: "pylib \<Rightarrow> ustring \<Rightarrow> (ustring \<times> json) list \<Rightarrow> ustring" where
  "presence_header L clean_id kvs =
    (let discord_user = obj_fields (lookup_or kvs ''discord_user'' (JObj []));
         discriminator = lookup_or discord_user ''discriminator'' (JStr (ascii ''0''))
     in check_mark @ ascii '' Discord Presence for ''
        @ (if discriminator = JStr (ascii ''0'') then ascii ''@'' @ username_text L kvs
           else username_text L kvs @ ascii ''#'' @ py_str L discriminator)
        @ ascii '' ('' @ py_str L (lookup_or discord_user ''id'' (JStr clean_id)) @ ascii '')'')"

definition not_listening :: "(ustring \<times> json) list \<Rightarrow> bool" where
  "not_listening kvs =
    (\<not> truthy (lookup_or kvs ''listening_to_spotify'' (JBool False))
     \<or> \<not> truthy (lookup_or kvs ''spotify'' JNull))"

section \<open>Example inputs\<close>

text \<open>
  An instance of the library parameters for the examples: upper-casing of the ASCII
  letters, and a \<open>repr\<close> that only adds the quotes.
\<close>

definition ascii_lib :: pylib where
  "ascii_lib =
    \<lparr>str_upper = map (\<lambda>c. if 97 \<le> c \<and> c \<le> 122 then c - 32 else c),
     str_repr = (\<lambda>s. [39] @ s @ [39])\<rparr>"

text \<open>Twenty digits, above the range of 64-bit integers, surrounded by whitespace.\<close>

definition padded_big_id :: ustring where
  "padded_big_id = ascii '' 99999999999999999999'' @ nl"

text \<open>Seventeen Arabic-Indic digits (code points 1632 to 1641).\<close>

definition arabic_indic_id :: ustring where
  "arabic_indic_id =
    [1633, 1634, 1635, 1636, 1637, 1638, 1639, 1640, 1641, 1632, 1633, 1634, 1635, 1636,
     1637, 1638, 1639]"

definition kv_ab :: "(ustring \<times> json) list" where
  "kv_ab = [(ascii ''a'', JStr (ascii ''1'')), (ascii ''b'', JStr (ascii ''2''))]"

definition acts_example :: "json list" where
  "acts_example =
    [JObj [(ascii ''name'', JStr (ascii ''Game A'')), (ascii ''type'', JInt 0)],
     JObj [(ascii ''name'', JStr (ascii ''Song B'')), (ascii ''type'', JInt 2),
           (ascii ''state'', JStr (ascii ''Chill''))]]"

definition acts_empty_details :: "json list" where
  "acts_empty_details =
    [JObj [(ascii ''name'', JStr (ascii ''Game A'')), (ascii ''type'', JInt 0),
           (ascii ''details'', JStr [])]]"

definition spotify_start_zero :: "(ustring \<times> json) list" where
  "spotify_start_zero =
    [(ascii ''song'', JStr (ascii ''Song B'')),
     (ascii ''timestamps'', JObj [(ascii ''start'', JInt 0)])]"

definition spotify_playing :: "(ustring \<times> json) list" where
  "spotify_playing =
    [(ascii ''song'', JStr (ascii ''Song B'')),
     (ascii ''timestamps'',
      JObj [(ascii ''start'', JInt 1700000000000), (ascii ''end'', JInt 1700000215000)])]"

definition alice :: "ustring \<Rightarrow> (ustring \<times> json) list" where
  "alice discriminator =
    [(ascii ''discord_user'',
      JObj [(ascii ''username'', JStr (ascii ''alice'')),
            (ascii ''discriminator'', JStr discriminator)])]"

definition idle_payload :: "json \<Rightarrow> (ustring \<times> json) list" where
  "idle_payload spotify =
    [(ascii ''discord_user'', JObj [(ascii ''username'', JStr (ascii ''alice''))]),
     (ascii ''listening_to_spotify'', JBool False),
     (ascii ''spotify'', spotify)]"

section \<open>Basic facts\<close>

lemma bindE_Inl [simp]: "bindE (Inl e) f = Inl e"
  by (simp add: bindE_def)

lemma bindE_Inr [simp]: "bindE (Inr x) f = f x"
  by (simp add: bindE_def)

lemma dict_get_JObj [simp]: "dict_get (JObj kvs) k d = Inr (lookup_or kvs k d)"
  by (simp add: dict_get_def)

lemmas eval_space = isspace_char_def in_ranges_def space_ranges_def

lemmas eval_strip = strip_def lstrip_def rstrip_def eval_space

lemmas eval_sanitize = sanitize_user_id_def eval_strip isdigit_def isdigit_char_def
  digit_ranges_def

lemma ascii_digit_isdigit: "ascii_digit c \<Longrightarrow> isdigit_char c"
  by (simp add: ascii_digit_def isdigit_char_def in_ranges_def digit_ranges_def)

lemma ascii_digit_not_space: "ascii_digit c \<Longrightarrow> \<not> isspace_char c"
  by (auto simp add: ascii_digit_def eval_space)

lemma absent_or_lookup: "absent_or P kvs k \<Longrightarrow> P d \<Longrightarrow> P (lookup_or kvs k d)"
  by (auto simp: absent_or_def lookup_or_def split: option.splits)

lemma lookup_or_cong:
  "map_of kvs (ascii k) = map_of kvs' (ascii k) \<Longrightarrow> lookup_or kvs k d = lookup_or kvs' k d"
  by (simp add: lookup_or_def)

lemma is_obj_E: "is_obj x \<Longrightarrow> \<exists>kvs. x = JObj kvs"
  by (cases x) auto

lemma is_str_E: "is_str x \<Longrightarrow> \<exists>s. x = JStr s"
  by (cases x) auto

lemma is_int_E: "is_int x \<Longrightarrow> \<exists>n. x = JInt n"
  by (cases x) auto

section \<open>What the identifier validator accepts and rejects\<close>

text \<open>
  Stripping a string that is padded with whitespace on both sides gives the part in
  between, provided that part starts and ends with a character that is not whitespace.
\<close>

lemma strip_padded:
  assumes "list_all isspace_char pre" and "list_all isspace_char post"
    and "s \<noteq> []" and "\<not> isspace_char (hd s)" and "\<not> isspace_char (last s)"
  shows "strip (pre @ s @ post) = s"
proof -
  have l: "lstrip (pre @ s @ post) = s @ post"
    using assms(1,3,4) unfolding lstrip_def
    by (cases s) (auto simp: list_all_iff dropWhile_append)
  have "dropWhile isspace_char (rev post @ rev s) = rev s"
    using assms(2,3,5)
    by (cases s rule: rev_cases) (auto simp: list_all_iff dropWhile_append)
  then show ?thesis by (simp add: strip_def l rstrip_def)
qed

text \<open>
  C1. If the stripped input is a non-empty string of ASCII digits of length 17 to 20, the
  validator returns exactly the stripped string. Nothing is parsed as a number: the
  result is the digit text itself, whatever its numeric size.
\<close>

theorem sanitize_user_id_accepts:
  assumes "strip user_id \<noteq> []"
    and "list_all ascii_digit (strip user_id)"
    and "17 \<le> length (strip user_id)" and "length (strip user_id) \<le> 20"
  shows "sanitize_user_id user_id = Inr (strip user_id)"
proof -
  have "list_all isdigit_char (strip user_id)"
    using assms(2) by (simp add: list_all_iff ascii_digit_isdigit)
  with assms show ?thesis
    by (simp add: sanitize_user_id_def isdigit_def Let_def)
qed

text \<open>Twenty nines, more than any 64-bit integer, inside whitespace.\<close>

theorem sanitize_user_id_accepts_witness:
  "strip padded_big_id = ascii ''99999999999999999999''
   \<and> strip padded_big_id \<noteq> []
   \<and> list_all ascii_digit (strip padded_big_id)
   \<and> 17 \<le> length (strip padded_big_id) \<and> length (strip padded_big_id) \<le> 20
   \<and> sanitize_user_id padded_big_id = Inr (ascii ''99999999999999999999'')"
proof -
  have s: "strip padded_big_id = ascii ''99999999999999999999''"
    by (simp add: padded_big_id_def eval_strip ascii_def nl_def)
  have h: "strip padded_big_id \<noteq> []" "list_all ascii_digit (strip padded_big_id)"
    "17 \<le> length (strip padded_big_id)" "length (strip padded_big_id) \<le> 20"
    unfolding s by (simp_all add: ascii_def ascii_digit_def)
  from sanitize_user_id_accepts [OF h] h s show ?thesis by simp
qed

text \<open>
  What the validator does reject: a stripped input with a character that \<open>str.isdigit\<close>
  does not accept fails with the non-digit message, whatever its length.
\<close>

lemma sanitize_user_id_rejects_non_digit:
  assumes "strip user_id \<noteq> []" and "\<not> list_all isdigit_char (strip user_id)"
  shows "sanitize_user_id user_id = Inl (ValueError (ascii ''User ID must contain only digits''))"
  using assms by (simp add: sanitize_user_id_def isdigit_def Let_def)

text \<open>
  C2. The claim is that an input with a character other than the ASCII digits is
  rejected. The validator tests with \<open>str.isdigit\<close>, which accepts every Unicode digit:
  seventeen Arabic-Indic digits are returned as a valid identifier.
\<close>

theorem sanitize_user_id_accepts_arabic_indic:
  "\<not> list_all ascii_digit arabic_indic_id
   \<and> sanitize_user_id arabic_indic_id = Inr arabic_indic_id"
  by (simp add: arabic_indic_id_def ascii_digit_def eval_sanitize)

section \<open>The tools: validation and transport failures\<close>

lemma run_tool_valid:
  "sanitize_user_id user_id = Inr clean_id \<Longrightarrow>
   run_tool client user_id not_found render =
     (Inr (handle_outcome clean_id (not_found clean_id) (render clean_id)
            (client (LANYARD_API_BASE @ ascii ''/users/'' @ clean_id))),
      [LANYARD_API_BASE @ ascii ''/users/'' @ clean_id])"
  by (simp add: run_tool_def Let_def)

lemma sanitize_raises_ValueError:
  "sanitize_user_id user_id = Inl e \<Longrightarrow> \<exists>m. e = ValueError m"
  by (auto simp: sanitize_user_id_def Let_def split: if_splits)

lemma run_tool_invalid:
  "sanitize_user_id user_id = Inl e \<Longrightarrow>
   run_tool client user_id not_found render =
     (Inr (cross_mark @ ascii '' Invalid user ID: '' @ exc_str e), [])"
  by (frule sanitize_raises_ValueError) (auto simp: run_tool_def)

text \<open>
  Every tool call returns a text; no exception leaves a tool, whatever the input and
  whatever the HTTP client does.
\<close>

lemma tools_always_return:
  "\<exists>text urls. get_user_presence L client user_id = (Inr text, urls)"
  "\<exists>text urls. get_user_spotify L client user_id = (Inr text, urls)"
  "\<exists>text urls. get_user_kv L client user_id = (Inr text, urls)"
  by (cases "sanitize_user_id user_id";
      simp add: get_user_presence_def get_user_spotify_def get_user_kv_def run_tool_valid
        run_tool_invalid)+

text \<open>
  An input that the validator rejects is answered with the invalid-identifier text, and
  no request is made.
\<close>

lemma invalid_id_no_request:
  assumes "sanitize_user_id user_id = Inl e"
  shows "get_user_presence L client user_id
           = (Inr (cross_mark @ ascii '' Invalid user ID: '' @ exc_str e), [])"
    and "get_user_spotify L client user_id
           = (Inr (cross_mark @ ascii '' Invalid user ID: '' @ exc_str e), [])"
    and "get_user_kv L client user_id
           = (Inr (cross_mark @ ascii '' Invalid user ID: '' @ exc_str e), [])"
  using assms
  by (simp_all add: get_user_presence_def get_user_spotify_def get_user_kv_def run_tool_invalid)

text \<open>
  C3. With a valid identifier, a response with status 404 gives the not-found text with
  the validated identifier, status 429 the rate-limit sentence, a timeout the timeout
  sentence with the identifier, and any other status outside 200 to 299 the HTTP-error
  text with the status code. Each is a returned text (\<open>Inr\<close>) of all three tools.
\<close>

theorem http_failures_are_returned:
  assumes "sanitize_user_id user_id = Inr clean_id"
  shows "let url = LANYARD_API_BASE @ ascii ''/users/'' @ clean_id;
             presence = fst (get_user_presence L client user_id);
             spotify = fst (get_user_spotify L client user_id);
             kv = fst (get_user_kv L client user_id)
         in (client url = Response 404 body \<longrightarrow>
               presence = Inr (cross_mark @ ascii '' User not found: '' @ clean_id
                               @ ascii '' (Discord user may not be using Lanyard)'')
             \<and> spotify = Inr (cross_mark @ ascii '' User not found: '' @ clean_id)
             \<and> kv = Inr (cross_mark @ ascii '' User not found: '' @ clean_id))
          \<and> (client url = Response 429 body \<longrightarrow>
               (\<forall>r \<in> {presence, spotify, kv}.
                  r = Inr (cross_mark @ ascii '' Rate limit exceeded. Please try again later.'')))
          \<and> (client url = TimeoutException \<longrightarrow>
               (\<forall>r \<in> {presence, spotify, kv}.
                  r = Inr (stopwatch @ ascii '' Request timed out while fetching user ''
                           @ clean_id)))
          \<and> (client url = Response status body \<and> \<not> (200 \<le> status \<and> status \<le> 299)
              \<and> status \<noteq> 404 \<and> status \<noteq> 429 \<longrightarrow>
               (\<forall>r \<in> {presence, spotify, kv}.
                  r = Inr (cross_mark @ ascii '' API Error: HTTP '' @ dec_int status)))"
  using assms
  by (simp add: Let_def get_user_presence_def get_user_spotify_def get_user_kv_def
      run_tool_valid handle_outcome_def)

theorem http_failures_are_returned_witness:
  "sanitize_user_id padded_big_id = Inr (ascii ''99999999999999999999'')
   \<and> fst (get_user_presence ascii_lib (\<lambda>url. Response 404 (Inl [])) padded_big_id)
       = Inr (cross_mark @ ascii '' User not found: 99999999999999999999''
              @ ascii '' (Discord user may not be using Lanyard)'')
   \<and> fst (get_user_spotify ascii_lib (\<lambda>url. Response 429 (Inl [])) padded_big_id)
       = Inr (cross_mark @ ascii '' Rate limit exceeded. Please try again later.'')
   \<and> fst (get_user_kv ascii_lib (\<lambda>url. TimeoutException) padded_big_id)
       = Inr (stopwatch @ ascii '' Request timed out while fetching user 99999999999999999999'')
   \<and> fst (get_user_kv ascii_lib (\<lambda>url. Response 503 (Inl [])) padded_big_id)
       = Inr (cross_mark @ ascii '' API Error: HTTP 503'')"
proof -
  have h: "sanitize_user_id padded_big_id = Inr (ascii ''99999999999999999999'')"
    by (simp add: padded_big_id_def eval_sanitize ascii_def nl_def)
  have d: "dec_int 503 = ascii ''503''"
    by (simp add: dec_int_def dec_nat.simps ascii_def)
  show ?thesis
    using h d
      http_failures_are_returned [OF h, where client = "\<lambda>url. Response 404 (Inl [])"
        and body = "Inl []" and L = ascii_lib]
      http_failures_are_returned [OF h, where client = "\<lambda>url. Response 429 (Inl [])"
        and body = "Inl []" and L = ascii_lib]
      http_failures_are_returned [OF h, where client = "\<lambda>url. TimeoutException"
        and L = ascii_lib]
      http_failures_are_returned [OF h, where client = "\<lambda>url. Response 503 (Inl [])"
        and body = "Inl []" and status = 503 and L = ascii_lib]
    by (simp add: Let_def ascii_def)
qed

text \<open>
  C10. The claim is that an identifier that is not 17 to 20 ASCII digits never reaches
  the request. The tools do stop on every input the validator rejects
  (\<open>invalid_id_no_request\<close>), but the validator accepts non-ASCII digits: for seventeen
  Arabic-Indic digits each tool requests the URL built from them.
\<close>

theorem tools_request_arabic_indic_id:
  "snd (get_user_presence L client arabic_indic_id)
     = [ascii ''https://api.lanyard.rest/v1/users/'' @ arabic_indic_id]
   \<and> snd (get_user_spotify L client arabic_indic_id)
     = [ascii ''https://api.lanyard.rest/v1/users/'' @ arabic_indic_id]
   \<and> snd (get_user_kv L client arabic_indic_id)
     = [ascii ''https://api.lanyard.rest/v1/users/'' @ arabic_indic_id]"
proof -
  have "sanitize_user_id arabic_indic_id = Inr arabic_indic_id"
    by (simp add: arabic_indic_id_def eval_sanitize)
  then show ?thesis
    by (simp add: get_user_presence_def get_user_spotify_def get_user_kv_def run_tool_valid
        LANYARD_API_BASE_def ascii_def)
qed

section \<open>Payloads with absent fields\<close>

lemma format_spotify_data_total:
  assumes "spotify_ok spotify"
  shows "\<exists>s. format_spotify_data L spotify = Inr s"
proof (cases spotify)
  case (JObj kvs)
  with assms have "is_obj (lookup_or kvs ''timestamps'' (JObj []))"
    by (simp add: absent_or_lookup)
  then obtain ts where "lookup_or kvs ''timestamps'' (JObj []) = JObj ts"
    using is_obj_E by blast
  with JObj show ?thesis
    by (simp add: format_spotify_data_def Let_def)
qed (use assms in \<open>simp_all add: format_spotify_data_def\<close>)

lemma type_names_get_int: "type_names_get (JInt n) = Inr (type_label n)"
  by (simp add: type_names_get_def type_names_def type_label_def)

lemma optional_line_truthy:
  "optional_line truthy fmt label kvs k =
     (if truthy (lookup_or kvs k JNull) then ascii label @ fmt (lookup_or kvs k JNull) @ nl
      else [])"
  by (auto simp: optional_line_def lookup_or_def split: option.splits)

text \<open>
  The loop appends one entry per activity, numbered from \<open>i\<close>, and never raises on
  activities that are objects with an integer \<open>type\<close>.
\<close>

lemma activities_loop_eq:
  "list_all activity_ok acts \<Longrightarrow>
   activities_loop L i acts acc
     = Inr (acc @ concat (map (activity_entry truthy L) (enumerate i acts)))"
proof (induction acts arbitrary: i acc)
  case Nil
  show ?case by simp
next
  case (Cons a acts)
  from Cons.prems obtain kvs where a: "a = JObj kvs" and ty: "absent_or is_int kvs ''type''"
    by (cases a) auto
  from Cons.prems have rest: "list_all activity_ok acts" by simp
  have label: "type_names_get (lookup_or kvs ''type'' (JInt 0))
      = Inr (case map_of kvs (ascii ''type'') of
               Some (JInt n) \<Rightarrow> type_label n | _ \<Rightarrow> type_label 0)"
    using ty
    by (auto simp: absent_or_def lookup_or_def type_names_get_int
        split: option.splits json.splits dest: is_int_E)
  show ?case
    by (simp add: a label Cons.IH [OF rest] activity_entry_def optional_line_truthy Let_def)
qed

lemma format_activities_total:
  "activities_ok activities \<Longrightarrow> \<exists>s. format_activities L activities = Inr s"
  by (cases activities) (simp_all add: format_activities_def py_iter_def activities_loop_eq)

lemma format_kv_data_total: "is_obj kv \<Longrightarrow> \<exists>s. format_kv_data L kv = Inr s"
  by (cases kv) (simp_all add: format_kv_data_def dict_items_def)

lemma payload_ok_discord_user:
  assumes "payload_ok (JObj kvs)"
  shows "\<exists>du. lookup_or kvs ''discord_user'' (JObj []) = JObj du"
proof -
  from assms have "is_obj (lookup_or kvs ''discord_user'' (JObj []))"
    by (simp add: absent_or_lookup)
  then show ?thesis by (rule is_obj_E)
qed

lemma payload_ok_discord_status:
  assumes "payload_ok (JObj kvs)"
  shows "\<exists>st. lookup_or kvs ''discord_status'' (JStr (ascii ''unknown'')) = JStr st"
proof -
  from assms have "is_str (lookup_or kvs ''discord_status'' (JStr (ascii ''unknown'')))"
    by (simp add: absent_or_lookup)
  then show ?thesis by (rule is_str_E)
qed

lemma payload_ok_blocks:
  assumes "payload_ok (JObj kvs)"
  shows "\<exists>s. format_spotify_data L (lookup_or kvs ''spotify'' JNull) = Inr s"
    and "\<exists>s. format_activities L (lookup_or kvs ''activities'' (JArr [])) = Inr s"
    and "\<exists>s. format_kv_data L (lookup_or kvs ''kv'' (JObj [])) = Inr s"
  using assms
  by (simp_all add: absent_or_lookup format_spotify_data_total format_activities_total
      format_kv_data_total)

lemma render_kv_total:
  assumes "payload_ok data"
  shows "\<exists>s. render_kv L data = Inr s"
proof -
  from assms obtain kvs where d: "data = JObj kvs" by (cases data) auto
  from assms d obtain du where du: "lookup_or kvs ''discord_user'' (JObj []) = JObj du"
    using payload_ok_discord_user by blast
  from assms d obtain kb where "format_kv_data L (lookup_or kvs ''kv'' (JObj [])) = Inr kb"
    using payload_ok_blocks(3) by blast
  then show ?thesis
    by (simp add: render_kv_def d du)
qed

lemma render_spotify_total:
  assumes "payload_ok data"
  shows "\<exists>s. render_spotify L data = Inr s"
proof -
  from assms obtain kvs where d: "data = JObj kvs" by (cases data) auto
  from assms d obtain du where du: "lookup_or kvs ''discord_user'' (JObj []) = JObj du"
    using payload_ok_discord_user by blast
  from assms d have sp: "spotify_ok (lookup_or kvs ''spotify'' JNull)"
    by (simp add: absent_or_lookup)
  show ?thesis
  proof (cases "lookup_or kvs ''spotify'' JNull")
    case (JObj sp_kvs)
    from format_spotify_data_total [OF sp, of L] show ?thesis
      by (auto simp: render_spotify_def d du JObj Let_def)
  qed (use sp in \<open>simp_all add: render_spotify_def d du\<close>)
qed

text \<open>
  The output of the full presence renderer before the final \<open>strip\<close>, as one
  concatenation: header, status line, device lines, and the three optional blocks.
\<close>

lemma render_presence_eq:
  assumes "payload_ok (JObj kvs)"
    and "lookup_or kvs ''discord_status'' (JStr (ascii ''unknown'')) = JStr st"
    and "format_spotify_data L (lookup_or kvs ''spotify'' JNull) = Inr sb"
    and "format_activities L (lookup_or kvs ''activities'' (JArr [])) = Inr ab"
    and "format_kv_data L (lookup_or kvs ''kv'' (JObj [])) = Inr kb"
  shows "render_presence L clean_id (JObj kvs) =
    Inr (strip ((presence_header L clean_id kvs @ nl @ nl) @ ascii ''Status: ''
      @ (case map_of status_emoji st of None \<Rightarrow> white_circle | Some e \<Rightarrow> e)
      @ ascii '' '' @ str_upper L st @ nl @ nl
      @ (if truthy (lookup_or kvs ''active_on_discord_desktop'' JNull)
         then laptop @ ascii '' Active on Desktop'' @ nl else [])
      @ (if truthy (lookup_or kvs ''active_on_discord_mobile'' JNull)
         then mobile_phone @ ascii '' Active on Mobile'' @ nl else [])
      @ nl
      @ (if truthy (lookup_or kvs ''listening_to_spotify'' JNull)
            \<and> truthy (lookup_or kvs ''spotify'' JNull) then sb @ nl else [])
      @ (if truthy (lookup_or kvs ''activities'' (JArr []))
         then game_controller @ ascii '' Activities:'' @ ab @ nl else [])
      @ (if truthy (lookup_or kvs ''kv'' (JObj [])) then kb else [])))"
proof -
  from assms(1) obtain du where du: "lookup_or kvs ''discord_user'' (JObj []) = JObj du"
    using payload_ok_discord_user by blast
  show ?thesis
    by (simp add: render_presence_def du assms(2-5) status_emoji_get_def upper_def Let_def
        presence_header_def username_text_def obj_fields_def)
qed

lemma render_presence_total:
  assumes "payload_ok data"
  shows "\<exists>s. render_presence L clean_id data = Inr s"
proof -
  from assms obtain kvs where d: "data = JObj kvs" by (cases data) auto
  from assms d obtain st sb ab kb
    where "lookup_or kvs ''discord_status'' (JStr (ascii ''unknown'')) = JStr st"
      and "format_spotify_data L (lookup_or kvs ''spotify'' JNull) = Inr sb"
      and "format_activities L (lookup_or kvs ''activities'' (JArr [])) = Inr ab"
      and "format_kv_data L (lookup_or kvs ''kv'' (JObj [])) = Inr kb"
    using payload_ok_discord_status payload_ok_blocks by metis
  from render_presence_eq [OF assms [unfolded d] this] show ?thesis
    unfolding d by blast
qed

text \<open>
  C4. On every well-shaped payload, whichever optional fields are absent, each of the
  three renderers returns a text and does not raise. On the empty payload the texts show
  the defaults: the name \<open>Unknown\<close>, the status \<open>unknown\<close> with the fallback circle, and no
  device line or block; a Spotify record or an activity without its fields is rendered
  with \<open>Unknown\<close> and the label of type 0.
\<close>

theorem renderers_total:
  "(payload_ok data \<longrightarrow>
      (\<exists>s. render_presence L clean_id data = Inr s)
      \<and> (\<exists>s. render_spotify L data = Inr s)
      \<and> (\<exists>s. render_kv L data = Inr s))
   \<and> render_presence L clean_id (JObj []) =
       Inr (strip (check_mark @ ascii '' Discord Presence for @Unknown ('' @ clean_id
                   @ ascii '')'' @ nl @ nl @ ascii ''Status: '' @ white_circle @ ascii '' ''
                   @ str_upper L (ascii ''unknown'') @ nl @ nl @ nl))
   \<and> render_spotify L (JObj []) =
       Inr ([127925] @ ascii '' Unknown is not currently listening to Spotify'')
   \<and> render_kv L (JObj []) = Inr ([128221] @ ascii '' Unknown has no custom KV data set'')
   \<and> format_spotify_data L (JObj [(ascii ''timestamps'', JObj [])]) =
       Inr ([127925] @ ascii '' Spotify Activity:'' @ nl @ ascii ''  Song: Unknown'' @ nl
            @ ascii ''  Artist: Unknown'' @ nl @ ascii ''  Album: Unknown'' @ nl)
   \<and> format_activities L (JArr [JObj []]) = Inr (nl @ ascii ''1. Playing Unknown'' @ nl)"
proof -
  have "render_presence L clean_id (JObj []) =
       Inr (strip (check_mark @ ascii '' Discord Presence for @Unknown ('' @ clean_id
                   @ ascii '')'' @ nl @ nl @ ascii ''Status: '' @ white_circle @ ascii '' ''
                   @ str_upper L (ascii ''unknown'') @ nl @ nl @ nl))"
    by (simp add: render_presence_def lookup_or_def status_emoji_get_def status_emoji_def
        upper_def py_str_def Let_def ascii_def white_circle_def check_mark_def)
  moreover have "render_spotify L (JObj []) =
       Inr ([127925] @ ascii '' Unknown is not currently listening to Spotify'')"
    by (simp add: render_spotify_def lookup_or_def py_str_def ascii_def)
  moreover have "render_kv L (JObj []) =
       Inr ([128221] @ ascii '' Unknown has no custom KV data set'')"
    by (simp add: render_kv_def lookup_or_def py_str_def ascii_def)
  moreover have "format_spotify_data L (JObj [(ascii ''timestamps'', JObj [])]) =
       Inr ([127925] @ ascii '' Spotify Activity:'' @ nl @ ascii ''  Song: Unknown'' @ nl
            @ ascii ''  Artist: Unknown'' @ nl @ ascii ''  Album: Unknown'' @ nl)"
    by (simp add: format_spotify_data_def lookup_or_def py_str_def Let_def ascii_def)
  moreover have "format_activities L (JArr [JObj []]) =
       Inr (nl @ ascii ''1. Playing Unknown'' @ nl)"
    by (simp add: format_activities_def py_iter_def lookup_or_def type_names_get_int
        type_label_def py_str_def dec_nat.simps ascii_def)
  ultimately show ?thesis
    using render_presence_total [of data L clean_id] render_spotify_total [of data L]
      render_kv_total [of data L]
    by blast
qed

text \<open>
  A payload with only a user name and an activity list: every other field is absent.
\<close>

theorem renderers_total_witness:
  "payload_ok (JObj [(ascii ''discord_user'', JObj [(ascii ''username'', JStr (ascii ''alice''))]),
                     (ascii ''activities'', JArr acts_example)])
   \<and> (\<exists>s. render_presence ascii_lib (ascii ''99999999999999999999'')
             (JObj [(ascii ''discord_user'', JObj [(ascii ''username'', JStr (ascii ''alice''))]),
                    (ascii ''activities'', JArr acts_example)]) = Inr s)
   \<and> (\<exists>s. render_spotify ascii_lib
             (JObj [(ascii ''discord_user'', JObj [(ascii ''username'', JStr (ascii ''alice''))]),
                    (ascii ''activities'', JArr acts_example)]) = Inr s)
   \<and> (\<exists>s. render_kv ascii_lib
             (JObj [(ascii ''discord_user'', JObj [(ascii ''username'', JStr (ascii ''alice''))]),
                    (ascii ''activities'', JArr acts_example)]) = Inr s)"
proof -
  have ok: "payload_ok (JObj [(ascii ''discord_user'',
                               JObj [(ascii ''username'', JStr (ascii ''alice''))]),
                              (ascii ''activities'', JArr acts_example)])"
    by (simp add: absent_or_def acts_example_def ascii_def)
  from renderers_total [of "JObj [(ascii ''discord_user'',
                               JObj [(ascii ''username'', JStr (ascii ''alice''))]),
                              (ascii ''activities'', JArr acts_example)]"
      ascii_lib "ascii ''99999999999999999999''"] ok
  show ?thesis by blast
qed

section \<open>The KV block\<close>

lemma lines_of_line: "10 \<notin> set l \<Longrightarrow> lines_of (l @ 10 # rest) = l # lines_of rest"
  by (induction l) auto

lemma lines_of_concat:
  "\<forall>x \<in> set xs. 10 \<notin> set (f x) \<Longrightarrow> lines_of (concat (map (\<lambda>x. f x @ nl) xs)) = map f xs"
  by (induction xs) (simp_all add: nl_def lines_of_line)

lemma kv_loop_eq: "kv_loop L kvs acc = acc @ concat (map (\<lambda>kv. kv_line L kv @ nl) kvs)"
  by (induction kvs arbitrary: acc) (auto simp: kv_line_def)

text \<open>
  C5, as the code has it. For the empty mapping the block is \<open>No KV data\<close>. For a
  non-empty mapping it is the header line \<open>Custom KV Data:\<close> (after the memo glyph)
  followed by one line per entry in the mapping's order, each of the form
  \<open>key: value\<close> indented by two spaces; when no key or value contains a newline, these
  are exactly the lines of the block.
\<close>

theorem format_kv_data_block:
  "format_kv_data L (JObj kvs) =
     Inr (if kvs = [] then ascii ''No KV data''
          else [128221] @ ascii '' Custom KV Data:'' @ nl
               @ concat (map (\<lambda>kv. kv_line L kv @ nl) kvs))
   \<and> (kvs \<noteq> [] \<and> (\<forall>kv \<in> set kvs. 10 \<notin> set (kv_line L kv)) \<longrightarrow>
        map_sum id lines_of (format_kv_data L (JObj kvs)) =
          Inr (([128221] @ ascii '' Custom KV Data:'') # map (kv_line L) kvs))"
proof -
  have block: "format_kv_data L (JObj kvs) =
     Inr (if kvs = [] then ascii ''No KV data''
          else [128221] @ ascii '' Custom KV Data:'' @ nl
               @ concat (map (\<lambda>kv. kv_line L kv @ nl) kvs))"
    by (simp add: format_kv_data_def dict_items_def kv_loop_eq Let_def)
  have "10 \<notin> set ([128221] @ ascii '' Custom KV Data:'')"
    by (simp add: ascii_def)
  then have "lines_of (([128221] @ ascii '' Custom KV Data:'') @ 10 # rest)
      = ([128221] @ ascii '' Custom KV Data:'') # lines_of rest" for rest
    by (rule lines_of_line)
  then show ?thesis
    unfolding block by (auto simp: nl_def lines_of_concat [unfolded nl_def])
qed

theorem format_kv_data_block_witness:
  "kv_ab \<noteq> []
   \<and> format_kv_data ascii_lib (JObj kv_ab) =
       Inr ([128221] @ ascii '' Custom KV Data:'' @ nl @ ascii ''  a: 1'' @ nl
            @ ascii ''  b: 2'' @ nl)
   \<and> map_sum id lines_of (format_kv_data ascii_lib (JObj kv_ab)) =
       Inr [[128221] @ ascii '' Custom KV Data:'', ascii ''  a: 1'', ascii ''  b: 2'']"
  using format_kv_data_block [of ascii_lib kv_ab]
  by (simp add: kv_ab_def kv_line_def py_str_def ascii_def nl_def)

text \<open>
  C5, as the claim states it: the block for \<open>{"a": "1", "b": "2"}\<close> would have exactly
  the two lines \<open>a: 1\<close> and \<open>b: 2\<close>. It has three lines, the first being the header, and
  the entry lines are indented.
\<close>

theorem kv_block_two_lines_counterexample:
  "map_sum id lines_of (format_kv_data ascii_lib (JObj kv_ab))
     \<noteq> Inr [ascii ''a: 1'', ascii ''b: 2'']"
  by (simp add: kv_ab_def format_kv_data_def dict_items_def py_str_def ascii_def nl_def)

section \<open>The Activities block\<close>

text \<open>
  C8, as the code has it. For a list of activity objects the block is \<open>No activities\<close>
  when the list is empty; otherwise it is, for each activity in order and numbered from
  1, an empty line, the line \<open>{ordinal}. {label} {name}\<close> with the label of the type
  (\<open>Activity\<close> for an integer outside 0 to 5, \<open>Playing\<close> for an absent type), then the
  indented \<open>Details\<close> line if \<open>details\<close> is present and truthy, then the indented
  \<open>State\<close> line if \<open>state\<close> is present and truthy.
\<close>

theorem format_activities_block:
  "list_all activity_ok acts \<Longrightarrow>
   format_activities L (JArr acts) = Inr (activities_block truthy L acts)"
  by (simp add: format_activities_def py_iter_def activities_loop_eq activities_block_def)

lemmas eval_block = activities_block_def activity_entry_def optional_line_def enumerate_eq_zip
  type_label_def lookup_or_def py_str_def absent_or_def ascii_def nl_def

theorem format_activities_block_witness:
  "list_all activity_ok acts_example
   \<and> format_activities ascii_lib (JArr acts_example) =
       Inr (nl @ ascii ''1. Playing Game A'' @ nl @ nl @ ascii ''2. Listening to Song B'' @ nl
            @ ascii ''   State: Chill'' @ nl)"
proof -
  have ok: "list_all activity_ok acts_example"
    by (simp add: acts_example_def absent_or_def ascii_def)
  have "enumerate 1 acts_example = [(1, acts_example ! 0), (2, acts_example ! 1)]"
    by (simp add: acts_example_def enumerate_eq_zip upt_rec)
  with format_activities_block [OF ok, of ascii_lib] ok show ?thesis
    by (simp add: acts_example_def eval_block dec_nat.simps)
qed

text \<open>
  C8, as the claim states it: a \<open>Details\<close> line whenever \<open>details\<close> is present. An
  activity whose \<open>details\<close> is present and is the empty string gets no such line.
\<close>

theorem details_present_counterexample:
  "map_of (obj_fields (acts_empty_details ! 0)) (ascii ''details'') = Some (JStr [])
   \<and> format_activities ascii_lib (JArr acts_empty_details)
       = Inr (nl @ ascii ''1. Playing Game A'' @ nl)
   \<and> format_activities ascii_lib (JArr acts_empty_details)
       \<noteq> Inr (activities_block present ascii_lib acts_empty_details)"
proof -
  have e: "enumerate 1 acts_empty_details = [(1, acts_empty_details ! 0)]"
    by (simp add: acts_empty_details_def enumerate_eq_zip upt_rec)
  show ?thesis
    by (simp add: e acts_empty_details_def format_activities_def py_iter_def type_names_get_int
        present_def obj_fields_def eval_block dec_nat.simps)
qed

section \<open>The presence header\<close>

lemma dropWhile_keep: "\<not> P c \<Longrightarrow> dropWhile P (zs @ c # ws) = dropWhile P zs @ c # ws"
  by (induction zs) auto

lemma rstrip_keep: "\<not> isspace_char c \<Longrightarrow> rstrip (xs @ c # ys) = xs @ c # rstrip ys"
  by (simp add: rstrip_def dropWhile_keep)

text \<open>
  \<open>strip\<close> removes nothing up to the last character that is not whitespace, when the
  first character is not whitespace either.
\<close>

lemma strip_keep:
  "\<not> isspace_char c \<Longrightarrow> \<not> isspace_char d \<Longrightarrow>
   strip (c # xs @ d # ys) = c # xs @ d # rstrip ys"
  using rstrip_keep [of d "c # xs" ys] by (simp add: strip_def lstrip_def)

text \<open>
  C7. On every well-shaped payload the full presence text begins with the header: the
  check mark and \<open>Discord Presence for\<close>, the display name, which is \<open>@username\<close> when the
  discriminator is the string \<open>0\<close> (or absent) and \<open>username#discriminator\<close> otherwise, and
  the user id in parentheses (the requested identifier when the payload has none); an
  empty line and the status line follow.
\<close>

theorem presence_header_rendered:
  assumes "payload_ok (JObj kvs)"
  shows "\<exists>rest. render_presence L clean_id (JObj kvs) =
           Inr (presence_header L clean_id kvs @ nl @ nl @ ascii ''Status:'' @ rest)"
proof -
  from assms obtain st sb ab kb
    where parts: "lookup_or kvs ''discord_status'' (JStr (ascii ''unknown'')) = JStr st"
      "format_spotify_data L (lookup_or kvs ''spotify'' JNull) = Inr sb"
      "format_activities L (lookup_or kvs ''activities'' (JArr [])) = Inr ab"
      "format_kv_data L (lookup_or kvs ''kv'' (JObj [])) = Inr kb"
    using payload_ok_discord_status payload_ok_blocks by metis
  define A where "A = tl (presence_header L clean_id kvs) @ nl @ nl"
  have hdr: "presence_header L clean_id kvs @ nl @ nl = 9989 # A"
    by (simp add: A_def presence_header_def check_mark_def Let_def)
  have status: "ascii ''Status: '' = 83 # ascii ''tatus'' @ [58, 32]"
    by (simp add: ascii_def)
  from render_presence_eq [OF assms parts, of clean_id]
  obtain B where "render_presence L clean_id (JObj kvs)
      = Inr (strip ((presence_header L clean_id kvs @ nl @ nl) @ ascii ''Status: '' @ B))"
    by blast
  also have "strip ((presence_header L clean_id kvs @ nl @ nl) @ ascii ''Status: '' @ B)
      = strip (9989 # (A @ 83 # ascii ''tatus'') @ 58 # 32 # B)"
    by (simp add: hdr status)
  also have "\<dots> = 9989 # (A @ 83 # ascii ''tatus'') @ 58 # rstrip (32 # B)"
    by (rule strip_keep) (simp_all add: eval_space)
  also have "\<dots> = presence_header L clean_id kvs @ nl @ nl @ ascii ''Status:'' @ rstrip (32 # B)"
    using hdr by (simp add: ascii_def)
  finally show ?thesis by blast
qed

text \<open>The two examples of the specification: \<open>alice\<close> with discriminator \<open>0\<close> and \<open>1234\<close>.\<close>

theorem presence_header_rendered_witness:
  "payload_ok (JObj (alice (ascii ''0''))) \<and> payload_ok (JObj (alice (ascii ''1234'')))
   \<and> (\<exists>rest. render_presence ascii_lib (ascii ''99999999999999999999'')
                (JObj (alice (ascii ''0''))) =
          Inr (check_mark @ ascii '' Discord Presence for @alice (99999999999999999999)''
               @ nl @ nl @ ascii ''Status:'' @ rest))
   \<and> (\<exists>rest. render_presence ascii_lib (ascii ''99999999999999999999'')
                (JObj (alice (ascii ''1234''))) =
          Inr (check_mark @ ascii '' Discord Presence for alice#1234 (99999999999999999999)''
               @ nl @ nl @ ascii ''Status:'' @ rest))"
proof -
  have ok: "payload_ok (JObj (alice (ascii ''0'')))" "payload_ok (JObj (alice (ascii ''1234'')))"
    by (simp_all add: alice_def absent_or_def ascii_def)
  have h0: "presence_header ascii_lib (ascii ''99999999999999999999'') (alice (ascii ''0''))
      = check_mark @ ascii '' Discord Presence for @alice (99999999999999999999)''"
    by (simp add: presence_header_def username_text_def obj_fields_def alice_def lookup_or_def
        py_str_def Let_def ascii_def)
  have h1: "presence_header ascii_lib (ascii ''99999999999999999999'') (alice (ascii ''1234''))
      = check_mark @ ascii '' Discord Presence for alice#1234 (99999999999999999999)''"
    by (simp add: presence_header_def username_text_def obj_fields_def alice_def lookup_or_def
        py_str_def Let_def ascii_def)
  from presence_header_rendered [OF ok(1), of ascii_lib "ascii ''99999999999999999999''"]
    presence_header_rendered [OF ok(2), of ascii_lib "ascii ''99999999999999999999''"]
  show ?thesis
    unfolding h0 h1 using ok by simp
qed

section \<open>The Spotify-only renderer when nothing is playing\<close>

lemma render_spotify_not_listening:
  assumes "not_listening kvs" and "absent_or is_obj kvs ''discord_user''"
  shows "render_spotify L (JObj kvs) =
    Inr ([127925] @ ascii '' '' @ username_text L kvs
         @ ascii '' is not currently listening to Spotify'')"
proof -
  from assms(2) have "is_obj (lookup_or kvs ''discord_user'' (JObj []))"
    by (simp add: absent_or_lookup)
  then obtain du where du: "lookup_or kvs ''discord_user'' (JObj []) = JObj du"
    using is_obj_E by blast
  from assms(1) show ?thesis
    by (auto simp: render_spotify_def du not_listening_def username_text_def obj_fields_def)
qed

text \<open>
  C9. When \<open>listening_to_spotify\<close> is false or absent, or \<open>spotify\<close> is absent (or
  \<open>null\<close>), the Spotify-only renderer returns the sentence that names the user and says
  they are not listening; and a second such payload that differs from the first only
  under the key \<open>spotify\<close> gives the same text.
\<close>

theorem not_listening_ignores_spotify:
  assumes "not_listening kvs" and "not_listening kvs'"
    and "absent_or is_obj kvs ''discord_user''"
    and "\<forall>k. k \<noteq> ascii ''spotify'' \<longrightarrow> map_of kvs' k = map_of kvs k"
  shows "render_spotify L (JObj kvs) =
          Inr ([127925] @ ascii '' '' @ username_text L kvs
               @ ascii '' is not currently listening to Spotify'')
       \<and> render_spotify L (JObj kvs') = render_spotify L (JObj kvs)"
proof -
  have du: "lookup_or kvs' ''discord_user'' d = lookup_or kvs ''discord_user'' d" for d
    using assms(4) by (intro lookup_or_cong) (simp add: ascii_def)
  then have "absent_or is_obj kvs' ''discord_user''"
    using assms(3,4) by (simp add: absent_or_def ascii_def)
  moreover have "username_text L kvs' = username_text L kvs"
    by (simp add: username_text_def du)
  ultimately show ?thesis
    using assms(1,2,3) by (simp add: render_spotify_not_listening)
qed

text \<open>
  Two payloads with \<open>listening_to_spotify\<close> false and different Spotify records.
\<close>

theorem not_listening_ignores_spotify_witness:
  "not_listening (idle_payload (JObj spotify_playing))
   \<and> not_listening (idle_payload (JObj spotify_start_zero))
   \<and> absent_or is_obj (idle_payload (JObj spotify_playing)) ''discord_user''
   \<and> render_spotify ascii_lib (JObj (idle_payload (JObj spotify_playing)))
       = Inr ([127925] @ ascii '' alice is not currently listening to Spotify'')
   \<and> render_spotify ascii_lib (JObj (idle_payload (JObj spotify_start_zero)))
       = Inr ([127925] @ ascii '' alice is not currently listening to Spotify'')"
proof -
  have h: "not_listening (idle_payload (JObj spotify_playing))"
    "not_listening (idle_payload (JObj spotify_start_zero))"
    "absent_or is_obj (idle_payload (JObj spotify_playing)) ''discord_user''"
    by (simp_all add: not_listening_def idle_payload_def lookup_or_def absent_or_def ascii_def)
  have agree: "\<forall>k. k \<noteq> ascii ''spotify'' \<longrightarrow>
      map_of (idle_payload (JObj spotify_start_zero)) k
      = map_of (idle_payload (JObj spotify_playing)) k"
    by (simp add: idle_payload_def)
  have name: "username_text ascii_lib (idle_payload (JObj spotify_playing)) = ascii ''alice''"
    by (simp add: username_text_def idle_payload_def obj_fields_def lookup_or_def py_str_def
        ascii_def)
  from not_listening_ignores_spotify [OF h agree, of ascii_lib] h agree show ?thesis
    by (simp add: name ascii_def)
qed

section \<open>Correctness of the timestamp conversion\<close>























section \<open>The Spotify block\<close>





end
